theory Spec2Isabelle
  imports Main "HOL-Library.AList"
begin

section \<open>The wizard workflow controller of VentureSync\<close>

text \<open>
  A shallow embedding of the wizard script (the part of \<^verbatim>\<open>static/js\<close> that starts
  with \<^verbatim>\<open>// Wizard functionality with persona optimization\<close>) and of
  \<^verbatim>\<open>makeAPICall\<close> from the main site script. The module variables
  \<^verbatim>\<open>currentStep\<close>, \<^verbatim>\<open>wizardData\<close> and \<^verbatim>\<open>selectedPersona\<close>, the two
  browser stores, the form controls of the page and the pending timers are fields of one
  state record; every function of the script is a function from state to state.

  The page markup is not part of the sources, so the shape of the page (which step
  elements exist, which controls their forms hold) is a field of the state. Rendering that
  only changes styles or visibility (\<^verbatim>\<open>updateWizardDisplay\<close>, \<^verbatim>\<open>updateProgress\<close>,
  \<^verbatim>\<open>showNotification\<close>, \<^verbatim>\<open>updatePersonaGuidance\<close>) has no effect on any field
  of the state and is left out.

  In \<^verbatim>\<open>collectCurrentStepData\<close> the loop over the form entries is closed by
  \<^verbatim>\<open>});\<close>; the model reads it as the plain end of the loop body.
\<close>

subsection \<open>Strings\<close>

text \<open>
  A string is a list of code units below 256. \<^verbatim>\<open>String.prototype.trim\<close> removes
  white space and line terminators; in this range they are the codes 9 to 13, 32 and 160.
\<close>

definition is_space :: "char \<Rightarrow> bool" where
  "is_space c = (of_char c \<in> set [9, 10, 11, 12, 13, 32, 160 :: nat])"

definition trim :: "string \<Rightarrow> string" where
  "trim s = rev (dropWhile is_space (rev (dropWhile is_space s)))"

definition lower_char :: "char \<Rightarrow> char" where
  "lower_char c =
     (let n = (of_char c :: nat)
      in if (65 \<le> n \<and> n \<le> 90) \<or> (192 \<le> n \<and> n \<le> 222 \<and> n \<noteq> 215)
         then char_of (n + 32) else c)"

definition toLowerCase :: "string \<Rightarrow> string" where
  "toLowerCase s = map lower_char s"

definition upper_char :: "char \<Rightarrow> char" where
  "upper_char c =
     (let n = (of_char c :: nat)
      in if 97 \<le> n \<and> n \<le> 122 then char_of (n - 32) else c)"

fun starts_with :: "string \<Rightarrow> string \<Rightarrow> bool" where
  "starts_with [] s = True"
| "starts_with (p # ps) [] = False"
| "starts_with (p # ps) (c # cs) = (p = c \<and> starts_with ps cs)"

text \<open>\<^verbatim>\<open>s.includes(sub)\<close>: \<open>sub\<close> occurs in \<open>s\<close> as a contiguous run.\<close>

fun str_includes :: "string \<Rightarrow> string \<Rightarrow> bool" where
  "str_includes [] sub = starts_with sub []"
| "str_includes (c # cs) sub = (starts_with sub (c # cs) \<or> str_includes cs sub)"

subsubsection \<open>Numbers as text\<close>

definition digit_char :: "nat \<Rightarrow> char" where
  "digit_char d = ''0123456789'' ! d"

function show_nat :: "nat \<Rightarrow> string" where
  "show_nat n = (if n < 10 then [digit_char n] else show_nat (n div 10) @ [digit_char (n mod 10)])"
  by pat_completeness auto
termination
  by (relation "measure id") auto

declare show_nat.simps [simp del]

text \<open>\<^verbatim>\<open>Number.prototype.toString\<close> on an integer.\<close>

definition toString :: "int \<Rightarrow> string" where
  "toString i = (if i < 0 then CHR ''-'' # show_nat (nat (- i)) else show_nat (nat i))"

text \<open>
  \<^verbatim>\<open>parseInt(text)\<close> with no radix: leading white space is skipped, a sign is read,
  a prefix \<^verbatim>\<open>0x\<close> selects radix 16, and the longest run of digits of the radix
  is the value. \<open>None\<close> is \<^verbatim>\<open>NaN\<close>.
\<close>

definition digit_val :: "char \<Rightarrow> nat option" where
  "digit_val c =
     (let n = (of_char c :: nat)
      in if 48 \<le> n \<and> n \<le> 57 then Some (n - 48)
         else if 97 \<le> n \<and> n \<le> 122 then Some (n - 87)
         else if 65 \<le> n \<and> n \<le> 90 then Some (n - 55)
         else None)"

fun read_digits :: "nat \<Rightarrow> nat option \<Rightarrow> string \<Rightarrow> nat option" where
  "read_digits radix acc [] = acc"
| "read_digits radix acc (c # cs) =
     (case digit_val c of
        None \<Rightarrow> acc
      | Some d \<Rightarrow>
          if d < radix
          then read_digits radix (Some ((case acc of None \<Rightarrow> 0 | Some a \<Rightarrow> a) * radix + d)) cs
          else acc)"

definition read_unsigned :: "string \<Rightarrow> nat option" where
  "read_unsigned s =
     (if starts_with ''0x'' s \<or> starts_with ''0X'' s
      then read_digits 16 None (drop 2 s)
      else read_digits 10 None s)"

definition parseInt :: "string \<Rightarrow> int option" where
  "parseInt text =
     (case dropWhile is_space text of
        [] \<Rightarrow> None
      | c # cs \<Rightarrow>
          if c = CHR ''-'' then map_option (\<lambda>n. - int n) (read_unsigned cs)
          else if c = CHR ''+'' then map_option int (read_unsigned cs)
          else map_option int (read_unsigned (c # cs)))"

subsection \<open>The analysis response and its presentation\<close>

text \<open>
  The response of \<^verbatim>\<open>POST /api/analyze\<close> is typed as the interface fixes it: an object
  whose fields may each be absent; scores are integers. A template literal is modelled by
  the values interpolated into it, the constant markup around them is left out.
\<close>

record risk_data =
  risk_score :: "int option"
  compliance_score :: "int option"
  risk_level :: "string option"
  status_color :: "string option"

record analysis =
  risk_assessment :: "risk_data option"
  persona_insights :: "(string \<times> string) list option"
  executive_summary :: "string option"

text \<open>The empty object of \<^verbatim>\<open>analysis.risk_assessment || {}\<close>.\<close>

definition empty_risk_data :: risk_data where
  "empty_risk_data =
     \<lparr>risk_score = None, compliance_score = None, risk_level = None, status_color = None\<rparr>"

text \<open>\<^verbatim>\<open>${x || d}\<close> for a number and for a string: zero and the empty string are falsy.\<close>

definition num_or :: "int option \<Rightarrow> string \<Rightarrow> string" where
  "num_or x d = (case x of None \<Rightarrow> d | Some n \<Rightarrow> if n = 0 then d else toString n)"

definition str_or :: "string option \<Rightarrow> string \<Rightarrow> string" where
  "str_or x d = (case x of None \<Rightarrow> d | Some s \<Rightarrow> if s = [] then d else s)"

text \<open>\<^verbatim>\<open>x >= k\<close>: an absent field is \<^verbatim>\<open>undefined\<close>, which compares false.\<close>

definition num_ge :: "int option \<Rightarrow> int \<Rightarrow> bool" where
  "num_ge x k = (case x of None \<Rightarrow> False | Some n \<Rightarrow> k \<le> n)"

record scenario =
  sc_name :: "string option"
  sc_industry :: "string option"
  sc_ai_system :: "string option"

datatype wvalue =
    Undefined
  | Null
  | BoolV bool
  | Scalar string
  | ListV "string list"
  | ScenarioV scenario

fun truthy :: "wvalue \<Rightarrow> bool" where
  "truthy Undefined = False"
| "truthy Null = False"
| "truthy (BoolV b) = b"
| "truthy (Scalar s) = (s \<noteq> [])"
| "truthy (ListV xs) = True"
| "truthy (ScenarioV sc) = True"

fun join_comma :: "string list \<Rightarrow> string" where
  "join_comma [] = []"
| "join_comma [x] = x"
| "join_comma (x # y # ys) = x @ '','' @ join_comma (y # ys)"

text \<open>The property key a value turns into when it indexes an object.\<close>

fun to_key :: "wvalue \<Rightarrow> string" where
  "to_key Undefined = ''undefined''"
| "to_key Null = ''null''"
| "to_key (BoolV b) = (if b then ''true'' else ''false'')"
| "to_key (Scalar s) = s"
| "to_key (ListV xs) = join_comma xs"
| "to_key (ScenarioV sc) = ''[object Object]''"

datatype persona_message = PersonaMessage string string string

text \<open>
  \<^verbatim>\<open>messages[persona] || messages.entrepreneur\<close>. The three templates are the own
  properties of \<^verbatim>\<open>messages\<close>; keys inherited from \<^verbatim>\<open>Object.prototype\<close>
  are not modelled.
\<close>

definition getPersonaSpecificMessage :: "wvalue \<Rightarrow> risk_data \<Rightarrow> persona_message" where
  "getPersonaSpecificMessage persona riskData =
     (let entrepreneur = PersonaMessage ''entrepreneur''
            (num_or (compliance_score riskData) ''N/A'' @ ''%'')
            (if num_ge (compliance_score riskData) 85 then ''exceeds VC expectations''
             else ''needs improvement for optimal VC appeal'');
          consultant = PersonaMessage ''consultant''
            (str_or (risk_level riskData) ''Unknown'')
            (if risk_level riskData = Some ''CRITICAL'' then ''Recommend avoiding this engagement''
             else if risk_level riskData = Some ''HIGH'' then ''Require enhanced contract protections''
             else ''Standard engagement terms acceptable'');
          seller = PersonaMessage ''seller''
            (num_or (compliance_score riskData) ''N/A'' @ ''%'')
            (if num_ge (compliance_score riskData) 70 then ''Ready for enterprise sales''
             else ''Client education recommended before enterprise pitches'')
      in if to_key persona = ''entrepreneur'' then entrepreneur
         else if to_key persona = ''consultant'' then consultant
         else if to_key persona = ''seller'' then seller
         else entrepreneur)"

definition getPersonaTitle :: "wvalue \<Rightarrow> string" where
  "getPersonaTitle persona =
     (if to_key persona = ''entrepreneur'' then ''Investor & Fundraising''
      else if to_key persona = ''consultant'' then ''Client Risk & Liability''
      else if to_key persona = ''seller'' then ''Sales & Market Positioning''
      else ''Business'')"

definition is_word_char :: "char \<Rightarrow> bool" where
  "is_word_char c =
     (let n = (of_char c :: nat)
      in (48 \<le> n \<and> n \<le> 57) \<or> (65 \<le> n \<and> n \<le> 90) \<or> (97 \<le> n \<and> n \<le> 122) \<or> n = 95)"

text \<open>
  \<^verbatim>\<open>replace(/\b\w/g, l => l.toUpperCase())\<close>; the flag says that the code unit before
  was a word character.
\<close>

fun capitalize_words :: "bool \<Rightarrow> string \<Rightarrow> string" where
  "capitalize_words inside [] = []"
| "capitalize_words inside (c # cs) =
     (if is_word_char c
      then (if inside then c else upper_char c) # capitalize_words True cs
      else c # capitalize_words False cs)"

definition formatLabel :: "string \<Rightarrow> string" where
  "formatLabel key = capitalize_words False (map (\<lambda>c. if c = CHR ''_'' then CHR '' '' else c) key)"

record results_summary =
  score_color :: string
  risk_score_text :: string
  risk_level_text :: string
  compliance_score_text :: string
  summary_text :: string
  insights_section :: "(string \<times> (string \<times> string) list) option"

definition createResultsSummary :: "analysis \<Rightarrow> wvalue \<Rightarrow> results_summary" where
  "createResultsSummary a persona =
     (let riskData = (case risk_assessment a of None \<Rightarrow> empty_risk_data | Some r \<Rightarrow> r);
          insights = (case persona_insights a of None \<Rightarrow> [] | Some i \<Rightarrow> i)
      in \<lparr>score_color = str_or (status_color riskData) ''#dc2626'',
          risk_score_text = num_or (risk_score riskData) ''--'',
          risk_level_text = str_or (risk_level riskData) ''Unknown'' @ '' Risk'',
          compliance_score_text = num_or (compliance_score riskData) ''--'',
          summary_text = str_or (executive_summary a) ''Analysis completed successfully.'',
          insights_section =
            (if length insights > 0
             then Some (getPersonaTitle persona @ '' Insights'',
                        map (\<lambda>(key, v). (formatLabel key, v)) insights)
             else None)\<rparr>)"

subsection \<open>The page, the stores and the session\<close>

text \<open>
  A form control of the page, with what the script reads of it: its \<^verbatim>\<open>name\<close>, its
  \<^verbatim>\<open>value\<close> (for a checkbox, the value attribute, whether it is checked or not), its
  checked state and its \<^verbatim>\<open>required\<close> attribute. A step element holds at most one
  \<^verbatim>\<open>.wizard-form\<close>, and the controls of a step are the controls of that form.
\<close>

datatype control_kind = TextLike | Checkbox | Radio

record control =
  cname :: string
  ckind :: control_kind
  cvalue :: string
  cchecked :: bool
  crequired :: bool

record step_element =
  wizard_form :: "control list option"

text \<open>
  \<^verbatim>\<open>wizardData\<close> is an object: its properties in insertion order. Assigning a
  property is \<^const>\<open>AList.update\<close>, reading one is \<open>get_prop\<close>.
\<close>

type_synonym wizard_data = "(string \<times> wvalue) list"

definition get_prop :: "wizard_data \<Rightarrow> string \<Rightarrow> wvalue" where
  "get_prop d k = (case map_of d k of None \<Rightarrow> Undefined | Some v \<Rightarrow> v)"

text \<open>
  A stored text is modelled by what \<^verbatim>\<open>JSON.parse\<close> makes of it: a value, or an
  exception. \<^verbatim>\<open>JSON.stringify\<close> leaves out the properties whose value is
  \<^verbatim>\<open>undefined\<close>. A text whose value is not an object is not modelled.
\<close>

datatype 'a json_text = Unparseable | Json 'a

definition JSON_stringify :: "wizard_data \<Rightarrow> wizard_data json_text" where
  "JSON_stringify d = Json (filter (\<lambda>(k, v). v \<noteq> Undefined) d)"

definition JSON_parse :: "'a json_text \<Rightarrow> 'a option" where
  "JSON_parse t = (case t of Unparseable \<Rightarrow> None | Json v \<Rightarrow> Some v)"

record local_storage =
  nexusai_wizard_data :: "wizard_data json_text option"
  nexusai_wizard_step :: "string option"

record session_storage =
  item_selectedScenario :: "scenario json_text option"
  item_selectedPersona :: "string option"

text \<open>The callbacks handed to \<^verbatim>\<open>setTimeout\<close> and \<^verbatim>\<open>setInterval\<close>.\<close>

datatype task =
    AutoSave
  | ResumeStep int
  | PersonaFromURL string bool
  | AutoAdvance

text \<open>
  What \<^verbatim>\<open>makeAPICall\<close> ends with: \<^verbatim>\<open>fetch\<close> rejects, the status is not ok,
  the body is not JSON, or the body is parsed. A body that is JSON but not an object is not
  modelled.
\<close>

datatype api_response =
    Unreachable
  | HttpError nat
  | BadBody
  | Success analysis


text \<open>What \<^verbatim>\<open>runAnalysis\<close> does that is seen from outside, in the order it does it.\<close>

datatype event =
    LoadingShown
  | StageActive nat
  | Waited nat
  | RequestIssued "wizard_data json_text"
  | ResultsShown "persona_message option" "results_summary option"
  | ErrorShown

record state =
  currentStep :: int
  wizardData :: wizard_data
  selectedPersona :: wvalue
  page :: "(int \<times> step_element) list"
  markup :: "(int \<times> step_element) list"
  analysis_steps :: nat
  has_results :: bool
  has_personaMessage :: bool
  has_resultsSummary :: bool
  localStorage :: local_storage
  sessionStorage :: session_storage
  search :: string
  param_persona :: "string option"
  param_demo :: "string option"
  now :: nat
  timers :: "(nat \<times> task) list"
  currentAnalysis :: "analysis option"
  log :: "event list"

definition totalSteps :: int where
  "totalSteps = 4"

definition schedule :: "nat \<Rightarrow> task \<Rightarrow> state \<Rightarrow> state" where
  "schedule delay t s = s\<lparr>timers := timers s @ [(now s + delay, t)]\<rparr>"

subsection \<open>Persistence\<close>

definition saveWizardData :: "state \<Rightarrow> state" where
  "saveWizardData s =
     s\<lparr>localStorage :=
         \<lparr>nexusai_wizard_data = Some (JSON_stringify (wizardData s)),
          nexusai_wizard_step = Some (toString (currentStep s))\<rparr>\<rparr>"

definition loadSavedWizardData :: "state \<Rightarrow> state" where
  "loadSavedWizardData s =
     (let savedData = nexusai_wizard_data (localStorage s);
          savedStep = nexusai_wizard_step (localStorage s);
          s1 = (case savedData of
                  None \<Rightarrow> s
                | Some t \<Rightarrow>
                    if \<not> truthy (get_prop (wizardData s) ''demo_scenario'')
                    then (case JSON_parse t of
                            None \<Rightarrow> s
                          | Some d \<Rightarrow>
                              if truthy (get_prop d ''persona'')
                              then s\<lparr>wizardData := d, selectedPersona := get_prop d ''persona''\<rparr>
                              else s\<lparr>wizardData := d\<rparr>)
                    else s)
      in case savedStep of
           None \<Rightarrow> s1
         | Some t \<Rightarrow>
             if t \<noteq> [] \<and> \<not> str_includes (search s1) ''demo''
             then (case parseInt t of
                     None \<Rightarrow> s1
                   | Some step \<Rightarrow>
                       if step > 1 \<and> step \<le> totalSteps
                       then schedule 1000 (ResumeStep step) s1
                       else s1)
             else s1)"

definition clearSavedWizardData :: "state \<Rightarrow> state" where
  "clearSavedWizardData s =
     s\<lparr>localStorage := \<lparr>nexusai_wizard_data = None, nexusai_wizard_step = None\<rparr>,
       sessionStorage := \<lparr>item_selectedScenario = None, item_selectedPersona = None\<rparr>\<rparr>"

subsection \<open>Persona and the demo handoff\<close>

definition selectPersona :: "wvalue \<Rightarrow> state \<Rightarrow> state" where
  "selectPersona persona s =
     s\<lparr>selectedPersona := persona,
       wizardData := AList.update ''persona'' persona (wizardData s)\<rparr>"

definition field_value :: "string option \<Rightarrow> wvalue" where
  "field_value x = (case x of None \<Rightarrow> Undefined | Some v \<Rightarrow> Scalar v)"

text \<open>
  \<open>None\<close> is the \<^verbatim>\<open>TypeError\<close> of \<^verbatim>\<open>scenario.industry.toLowerCase()\<close> on a
  record with no industry: it is raised while the object literal is built, before
  \<^verbatim>\<open>wizardData\<close> is assigned.
\<close>

definition prefillWizardFromScenario :: "scenario \<Rightarrow> state \<Rightarrow> state option" where
  "prefillWizardFromScenario sc s =
     (case sc_industry sc of
        None \<Rightarrow> None
      | Some ind \<Rightarrow>
          Some (schedule 1000 AutoAdvance
            (s\<lparr>wizardData :=
                 AList.update ''demo_scenario'' (ScenarioV sc)
                   (AList.update ''ai_description'' (field_value (sc_ai_system sc))
                     (AList.update ''industry'' (Scalar (toLowerCase ind))
                       (AList.update ''company_name'' (field_value (sc_name sc))
                         (wizardData s))))\<rparr>)))"

definition loadDemoScenario :: "state \<Rightarrow> state" where
  "loadDemoScenario s =
     (case item_selectedScenario (sessionStorage s) of
        None \<Rightarrow> s
      | Some savedScenario \<Rightarrow>
          (case JSON_parse savedScenario of
             None \<Rightarrow> s
           | Some sc \<Rightarrow>
               (case prefillWizardFromScenario sc s of
                  None \<Rightarrow> s
                | Some s' \<Rightarrow> s')))"

text \<open>
  The parameters \<^verbatim>\<open>persona\<close> and \<^verbatim>\<open>demo\<close> of the address, as
  \<^verbatim>\<open>URLSearchParams\<close> gives them, are fields of the state. The parameter
  \<^verbatim>\<open>scenario\<close> is passed to \<^verbatim>\<open>loadDemoScenario\<close>, which does not use it.
\<close>

definition loadURLParameters :: "state \<Rightarrow> state" where
  "loadURLParameters s =
     (case param_persona s of
        None \<Rightarrow> s
      | Some persona \<Rightarrow>
          if persona \<noteq> []
          then schedule 500
                 (PersonaFromURL persona
                    (case param_demo s of None \<Rightarrow> False | Some isDemo \<Rightarrow> isDemo \<noteq> []))
                 (s\<lparr>selectedPersona := Scalar persona,
                    wizardData := AList.update ''persona'' (Scalar persona) (wizardData s)\<rparr>)
          else s)"

subsection \<open>Validation and collection\<close>

definition step_controls :: "state \<Rightarrow> int \<Rightarrow> control list" where
  "step_controls s n =
     (case map_of (page s) n of
        None \<Rightarrow> []
      | Some el \<Rightarrow> (case wizard_form el of None \<Rightarrow> [] | Some cs \<Rightarrow> cs))"

definition current_form :: "state \<Rightarrow> control list option" where
  "current_form s =
     (case map_of (page s) (currentStep s) of None \<Rightarrow> None | Some el \<Rightarrow> wizard_form el)"

text \<open>The loop over the required fields, which returns at the first blank one.\<close>

fun check_required :: "control list \<Rightarrow> bool" where
  "check_required [] = True"
| "check_required (field # rest) =
     (if trim (cvalue field) = [] then False else check_required rest)"

definition validateCurrentStep :: "state \<Rightarrow> bool" where
  "validateCurrentStep s =
     (case map_of (page s) (currentStep s) of
        None \<Rightarrow> True
      | Some el \<Rightarrow>
          if currentStep s = 1
          then selectedPersona s \<noteq> Null \<and> selectedPersona s \<noteq> Undefined
          else check_required (filter crequired (step_controls s (currentStep s))))"

text \<open>
  The entries of \<^verbatim>\<open>new FormData(form)\<close>: every named control in document order, a
  checkbox or radio button only when it is checked.
\<close>

definition formData_entries :: "control list \<Rightarrow> (string \<times> string) list" where
  "formData_entries cs =
     map (\<lambda>c. (cname c, cvalue c))
       (filter (\<lambda>c. cname c \<noteq> [] \<and> (ckind c = TextLike \<or> cchecked c)) cs)"

text \<open>\<^verbatim>\<open>checkboxData\<close>: for each name the values of the checked boxes, in page order.\<close>

definition push_checkbox :: "control \<Rightarrow> (string \<times> string list) list \<Rightarrow> (string \<times> string list) list" where
  "push_checkbox c acc =
     (case map_of acc (cname c) of
        None \<Rightarrow> AList.update (cname c) [cvalue c] acc
      | Some vs \<Rightarrow> AList.update (cname c) (vs @ [cvalue c]) acc)"

definition checkbox_data :: "control list \<Rightarrow> (string \<times> string list) list" where
  "checkbox_data cs =
     fold push_checkbox (filter (\<lambda>c. ckind c = Checkbox \<and> cchecked c) cs) []"

definition merge_entry :: "string \<times> string \<Rightarrow> wizard_data \<Rightarrow> wizard_data" where
  "merge_entry e d =
     (if \<not> str_includes (fst e) ''checkbox'' then AList.update (fst e) (Scalar (snd e)) d else d)"

definition merge_checkbox :: "string \<times> string list \<Rightarrow> wizard_data \<Rightarrow> wizard_data" where
  "merge_checkbox e d = AList.update (fst e) (ListV (snd e)) d"

definition collectCurrentStepData :: "state \<Rightarrow> state" where
  "collectCurrentStepData s =
     (case map_of (page s) (currentStep s) of
        None \<Rightarrow> s
      | Some el \<Rightarrow>
          (case wizard_form el of
             None \<Rightarrow> s
           | Some form \<Rightarrow>
               saveWizardData
                 (s\<lparr>wizardData :=
                      fold merge_checkbox (checkbox_data form)
                        (fold merge_entry (formData_entries form) (wizardData s))\<rparr>)))"

subsection \<open>Demo values in the forms\<close>

text \<open>
  \<^verbatim>\<open>form.querySelector('[name=...]')\<close> is the first control of that name; it is
  written only when its value is empty.
\<close>

fun fill_if_empty :: "string \<Rightarrow> string \<Rightarrow> control list \<Rightarrow> control list" where
  "fill_if_empty n v [] = []"
| "fill_if_empty n v (c # cs) =
     (if cname c = n
      then (if cvalue c = [] then c\<lparr>cvalue := v\<rparr> else c) # cs
      else c # fill_if_empty n v cs)"

text \<open>A field the record does not have is \<^verbatim>\<open>undefined\<close>, which a control shows as text.\<close>

definition shown_text :: "string option \<Rightarrow> string" where
  "shown_text x = (case x of None \<Rightarrow> ''undefined'' | Some v \<Rightarrow> v)"

definition scenario_of :: "wvalue \<Rightarrow> scenario" where
  "scenario_of v =
     (case v of
        ScenarioV sc \<Rightarrow> sc
      | _ \<Rightarrow> \<lparr>sc_name = None, sc_industry = None, sc_ai_system = None\<rparr>)"

definition set_form :: "int \<Rightarrow> control list \<Rightarrow> state \<Rightarrow> state" where
  "set_form n cs s = s\<lparr>page := AList.update n \<lparr>wizard_form = Some cs\<rparr> (page s)\<rparr>"

text \<open>
  With no industry in the record, \<^verbatim>\<open>scenario.industry.toLowerCase()\<close> raises when the
  industry control is there and empty; nothing follows it in the caller, so the state is
  the one reached before, with the company name already written.
\<close>

definition autoFillDemoData :: "state \<Rightarrow> state" where
  "autoFillDemoData s =
     (if \<not> truthy (get_prop (wizardData s) ''demo_scenario'') then s
      else
        let sc = scenario_of (get_prop (wizardData s) ''demo_scenario'')
        in if currentStep s = 2
           then (case map_of (page s) 2 of
                   None \<Rightarrow> s
                 | Some el \<Rightarrow>
                     (case wizard_form el of
                        None \<Rightarrow> s
                      | Some form \<Rightarrow>
                          let form1 = fill_if_empty ''company_name'' (shown_text (sc_name sc)) form
                          in (case sc_industry sc of
                                None \<Rightarrow> set_form 2 form1 s
                              | Some ind \<Rightarrow>
                                  set_form 2 (fill_if_empty ''industry'' (toLowerCase ind) form1) s)))
           else if currentStep s = 3
           then (case map_of (page s) 3 of
                   None \<Rightarrow> s
                 | Some el \<Rightarrow>
                     (case wizard_form el of
                        None \<Rightarrow> s
                      | Some form \<Rightarrow>
                          set_form 3
                            (fill_if_empty ''ai_description'' (shown_text (sc_ai_system sc)) form) s))
           else s)"

subsection \<open>Navigation\<close>

definition nextStep :: "state \<Rightarrow> state" where
  "nextStep s =
     (if \<not> validateCurrentStep s then s
      else
        let s1 = collectCurrentStepData s
        in if currentStep s1 < totalSteps
           then
             let s2 = s1\<lparr>currentStep := currentStep s1 + 1\<rparr>
             in if truthy (get_prop (wizardData s2) ''demo_scenario'') then autoFillDemoData s2 else s2
           else s1)"

definition previousStep :: "state \<Rightarrow> state" where
  "previousStep s = (if currentStep s > 1 then s\<lparr>currentStep := currentStep s - 1\<rparr> else s)"

subsection \<open>Submission\<close>

primrec stage_events :: "nat \<Rightarrow> nat \<Rightarrow> event list" where
  "stage_events i 0 = []"
| "stage_events i (Suc k) = StageActive i # Waited 1200 # stage_events (Suc i) k"

definition simulateAnalysisSteps :: "state \<Rightarrow> state" where
  "simulateAnalysisSteps s =
     s\<lparr>log := log s @ stage_events 0 (analysis_steps s),
       now := now s + 1200 * analysis_steps s\<rparr>"

definition showAnalysisLoading :: "state \<Rightarrow> state" where
  "showAnalysisLoading s = s\<lparr>log := log s @ [LoadingShown]\<rparr>"

definition analysisData :: "state \<Rightarrow> wizard_data" where
  "analysisData s =
     (let use_demo = truthy (get_prop (wizardData s) ''demo_scenario'');
          d = AList.update ''persona'' (selectedPersona s)
                (AList.update ''use_demo'' (BoolV use_demo) (wizardData s))
      in if use_demo then AList.update ''demo_type'' (selectedPersona s) d else d)"

text \<open>\<^verbatim>\<open>makeAPICall\<close> up to the moment \<^verbatim>\<open>fetch\<close> is called with the body.\<close>

definition issue_request :: "wizard_data \<Rightarrow> state \<Rightarrow> state" where
  "issue_request body s = s\<lparr>log := log s @ [RequestIssued (JSON_stringify body)]\<rparr>"

definition displayWizardResults :: "analysis \<Rightarrow> state \<Rightarrow> state" where
  "displayWizardResults a s =
     (if \<not> has_results s then s
      else
        let riskData = (case risk_assessment a of None \<Rightarrow> empty_risk_data | Some r \<Rightarrow> r);
            message = (if has_personaMessage s
                       then Some (getPersonaSpecificMessage (selectedPersona s) riskData)
                       else None);
            summary = (if has_resultsSummary s
                       then Some (createResultsSummary a (selectedPersona s))
                       else None)
        in clearSavedWizardData
             (s\<lparr>currentAnalysis := Some a, log := log s @ [ResultsShown message summary]\<rparr>))"

definition showAnalysisError :: "state \<Rightarrow> state" where
  "showAnalysisError s = (if \<not> has_results s then s else s\<lparr>log := log s @ [ErrorShown]\<rparr>)"

text \<open>
  \<^verbatim>\<open>runAnalysis\<close> with the answer of the service as an argument. The two
  \<^verbatim>\<open>await\<close>s follow each other: the request is built and sent by the statement after
  \<^verbatim>\<open>await simulateAnalysisSteps()\<close>. Other callbacks that the browser may run while
  the function is suspended are not interleaved here.
\<close>

definition runAnalysis :: "api_response \<Rightarrow> state \<Rightarrow> state" where
  "runAnalysis response s =
     (let s1 = collectCurrentStepData s;
          s2 = showAnalysisLoading (s1\<lparr>currentStep := 4\<rparr>);
          body = analysisData s2;
          s3 = simulateAnalysisSteps s2;
          s4 = issue_request body s3
      in case response of
           Success a \<Rightarrow> displayWizardResults a s4
         | _ \<Rightarrow> showAnalysisError s4)"

subsection \<open>Timers, page load and restart\<close>

definition run_task :: "task \<Rightarrow> state \<Rightarrow> state" where
  "run_task t s =
     (case t of
        AutoSave \<Rightarrow>
          schedule 30000 AutoSave (if wizardData s \<noteq> [] then saveWizardData s else s)
      | ResumeStep step \<Rightarrow> s\<lparr>currentStep := step\<rparr>
      | PersonaFromURL persona isDemo \<Rightarrow>
          (let s1 = selectPersona (Scalar persona) s
           in if isDemo then loadDemoScenario s1 else s1)
      | AutoAdvance \<Rightarrow> (if currentStep s = 1 then nextStep s else s))"

fun earliest :: "(nat \<times> task) list \<Rightarrow> (nat \<times> task) option" where
  "earliest [] = None"
| "earliest (x # xs) =
     (case earliest xs of
        None \<Rightarrow> Some x
      | Some y \<Rightarrow> if fst x \<le> fst y then Some x else Some y)"

text \<open>The browser runs the pending callback that is due first.\<close>

definition fire_next :: "state \<Rightarrow> state" where
  "fire_next s =
     (case earliest (timers s) of
        None \<Rightarrow> s
      | Some x \<Rightarrow>
          run_task (snd x) (s\<lparr>now := max (now s) (fst x), timers := remove1 x (timers s)\<rparr>))"

text \<open>
  Loading the page: the module variables get their initial values, the interval of the
  auto-save is set, the controls are those of the markup; the stores and the address are
  what they were.
\<close>

definition module_init :: "state \<Rightarrow> state" where
  "module_init s =
     s\<lparr>currentStep := 1, wizardData := [], selectedPersona := Null,
       page := markup s, timers := [(now s + 30000, AutoSave)],
       currentAnalysis := None, log := []\<rparr>"

definition page_load :: "state \<Rightarrow> state" where
  "page_load s = loadURLParameters (loadSavedWizardData (module_init s))"

definition startNewAssessment :: "state \<Rightarrow> state" where
  "startNewAssessment s = page_load (clearSavedWizardData s)"

subsection \<open>Operations and the step invariant\<close>

datatype operation =
    Next
  | Previous
  | Submit api_response
  | Restart
  | PersonaCard wvalue
  | TimerFires
  | PageLoad

fun apply_operation :: "operation \<Rightarrow> state \<Rightarrow> state" where
  "apply_operation Next s = nextStep s"
| "apply_operation Previous s = previousStep s"
| "apply_operation (Submit response) s = runAnalysis response s"
| "apply_operation Restart s = startNewAssessment s"
| "apply_operation (PersonaCard persona) s = selectPersona persona s"
| "apply_operation TimerFires s = fire_next s"
| "apply_operation PageLoad s = page_load s"

fun resume_in_bounds :: "task \<Rightarrow> bool" where
  "resume_in_bounds (ResumeStep step) = (1 < step \<and> step \<le> totalSteps)"
| "resume_in_bounds t = True"

definition step_in_bounds :: "state \<Rightarrow> bool" where
  "step_in_bounds s = (1 \<le> currentStep s \<and> currentStep s \<le> totalSteps)"

text \<open>The step is in bounds, and so is every step that a pending resume will set.\<close>

definition wizard_inv :: "state \<Rightarrow> bool" where
  "wizard_inv s = (step_in_bounds s \<and> list_all (\<lambda>x. resume_in_bounds (snd x)) (timers s))"

subsection \<open>Properties of the event log\<close>

fun is_stage :: "event \<Rightarrow> bool" where
  "is_stage (StageActive i) = True"
| "is_stage (Waited ms) = True"
| "is_stage e = False"

fun is_display :: "event \<Rightarrow> bool" where
  "is_display (ResultsShown message summary) = True"
| "is_display ErrorShown = True"
| "is_display e = False"

text \<open>The events that follow the first request.\<close>

fun after_request :: "event list \<Rightarrow> event list" where
  "after_request [] = []"
| "after_request (RequestIssued body # es) = es"
| "after_request (e # es) = after_request es"

subsection \<open>Properties of the forms\<close>

text \<open>A control after a prefill: untouched, or it was empty and only its value changed.\<close>

definition control_filled :: "control \<Rightarrow> control \<Rightarrow> bool" where
  "control_filled c c' = (c' = c \<or> (cvalue c = [] \<and> c' = c\<lparr>cvalue := cvalue c'\<rparr>))"

text \<open>
  The completeness check in the words of the specification: a required field is non-empty
  after trimming, and a required field of list type (a group of checkboxes of one name)
  has at least one selection.
\<close>

definition spec_field_complete :: "control list \<Rightarrow> control \<Rightarrow> bool" where
  "spec_field_complete form c =
     (if ckind c = Checkbox
      then list_ex (\<lambda>c'. ckind c' = Checkbox \<and> cname c' = cname c \<and> cchecked c') form
      else trim (cvalue c) \<noteq> [])"

definition spec_required_complete :: "control list \<Rightarrow> bool" where
  "spec_required_complete form = list_all (spec_field_complete form) (filter crequired form)"

subsection \<open>Example sessions\<close>

definition text_field :: "string \<Rightarrow> string \<Rightarrow> control" where
  "text_field n v =
     \<lparr>cname = n, ckind = TextLike, cvalue = v, cchecked = False, crequired = True\<rparr>"

definition example_markup :: "(int \<times> step_element) list" where
  "example_markup =
     [(1, \<lparr>wizard_form = None\<rparr>),
      (2, \<lparr>wizard_form = Some [text_field ''company_name'' [], text_field ''industry'' []]\<rparr>),
      (3, \<lparr>wizard_form = Some
             [text_field ''ai_description'' [],
              \<lparr>cname = ''regulations'', ckind = Checkbox, cvalue = ''gdpr'',
               cchecked = False, crequired = True\<rparr>]\<rparr>),
      (4, \<lparr>wizard_form = None\<rparr>)]"

definition techstart :: scenario where
  "techstart =
     \<lparr>sc_name = Some ''TechStart Pro'', sc_industry = Some ''B2B SaaS'',
      sc_ai_system = Some ''Sales lead scoring with anonymized data''\<rparr>"

text \<open>A page that was just opened, with nothing stored and no parameters.\<close>

definition fresh_session :: state where
  "fresh_session =
     \<lparr>currentStep = 1, wizardData = [], selectedPersona = Null,
      page = example_markup, markup = example_markup,
      analysis_steps = 2, has_results = True, has_personaMessage = True,
      has_resultsSummary = True,
      localStorage = \<lparr>nexusai_wizard_data = None, nexusai_wizard_step = None\<rparr>,
      sessionStorage = \<lparr>item_selectedScenario = None, item_selectedPersona = None\<rparr>,
      search = [], param_persona = None, param_demo = None,
      now = 0, timers = [(30000, AutoSave)], currentAnalysis = None, log = []\<rparr>"

text \<open>A user at step 3 who has typed a company name, an industry and a description.\<close>

definition acme_session :: state where
  "acme_session =
     fresh_session
       \<lparr>currentStep := 3,
        wizardData := [(''persona'', Scalar ''consultant''), (''company_name'', Scalar ''Acme''),
                       (''industry'', Scalar ''retail'')],
        selectedPersona := Scalar ''consultant'',
        page := [(1, \<lparr>wizard_form = None\<rparr>),
                 (2, \<lparr>wizard_form = Some [text_field ''company_name'' ''Acme'',
                                           text_field ''industry'' ''retail'']\<rparr>),
                 (3, \<lparr>wizard_form = Some
                        [text_field ''ai_description'' ''Shelf analytics'',
                         \<lparr>cname = ''regulations'', ckind = Checkbox, cvalue = ''gdpr'',
                          cchecked = False, crequired = True\<rparr>]\<rparr>),
                 (4, \<lparr>wizard_form = None\<rparr>)],
        localStorage :=
          \<lparr>nexusai_wizard_data =
             Some (Json [(''persona'', Scalar ''consultant''), (''company_name'', Scalar ''Acme''),
                         (''industry'', Scalar ''retail'')]),
           nexusai_wizard_step = Some ''2''\<rparr>\<rparr>"

text \<open>The same user, arriving through a demo link with a handoff record in the session store.\<close>

definition acme_demo_session :: state where
  "acme_demo_session =
     acme_session
       \<lparr>sessionStorage :=
          \<lparr>item_selectedScenario = Some (Json techstart),
           item_selectedPersona = Some ''entrepreneur''\<rparr>,
        search := ''?demo=true&persona=entrepreneur&scenario=TechStart+Pro'',
        param_persona := Some ''entrepreneur'', param_demo := Some ''true''\<rparr>"

text \<open>A user at step 2 who left the company name blank.\<close>

definition blank_session :: state where
  "blank_session =
     fresh_session
       \<lparr>currentStep := 2, selectedPersona := Scalar ''seller'',
        wizardData := [(''persona'', Scalar ''seller'')],
        page := [(1, \<lparr>wizard_form = None\<rparr>),
                 (2, \<lparr>wizard_form = Some [text_field ''company_name'' ''   '',
                                           text_field ''industry'' ''retail'']\<rparr>),
                 (3, \<lparr>wizard_form = Some [text_field ''ai_description'' []]\<rparr>),
                 (4, \<lparr>wizard_form = None\<rparr>)]\<rparr>"

text \<open>A demo session that is live in the page, with progress of an earlier visit stored.\<close>

definition demo_live_session :: state where
  "demo_live_session =
     acme_demo_session
       \<lparr>wizardData := [(''persona'', Scalar ''entrepreneur''),
                       (''demo_scenario'', ScenarioV techstart)],
        localStorage :=
          \<lparr>nexusai_wizard_data = Some (Json [(''company_name'', Scalar ''Acme'')]),
           nexusai_wizard_step = Some ''3''\<rparr>\<rparr>"

text \<open>A session at step 3 with a resume pending.\<close>

definition resumable_session :: state where
  "resumable_session =
     acme_session
       \<lparr>timers := [(30000, AutoSave), (1000, ResumeStep 3)],
        localStorage := \<lparr>nexusai_wizard_data = None, nexusai_wizard_step = Some ''3''\<rparr>\<rparr>"

section \<open>Verified properties\<close>

subsection \<open>What each function leaves alone\<close>

lemma save_frame [simp]:
  "currentStep (saveWizardData s) = currentStep s"
  "wizardData (saveWizardData s) = wizardData s"
  "selectedPersona (saveWizardData s) = selectedPersona s"
  "page (saveWizardData s) = page s"
  "timers (saveWizardData s) = timers s"
  "now (saveWizardData s) = now s"
  "sessionStorage (saveWizardData s) = sessionStorage s"
  "search (saveWizardData s) = search s"
  "log (saveWizardData s) = log s"
  "has_results (saveWizardData s) = has_results s"
  "analysis_steps (saveWizardData s) = analysis_steps s"
  by (simp_all add: saveWizardData_def)

lemma collect_frame [simp]:
  "currentStep (collectCurrentStepData s) = currentStep s"
  "selectedPersona (collectCurrentStepData s) = selectedPersona s"
  "page (collectCurrentStepData s) = page s"
  "timers (collectCurrentStepData s) = timers s"
  "now (collectCurrentStepData s) = now s"
  "sessionStorage (collectCurrentStepData s) = sessionStorage s"
  "search (collectCurrentStepData s) = search s"
  "log (collectCurrentStepData s) = log s"
  "has_results (collectCurrentStepData s) = has_results s"
  "analysis_steps (collectCurrentStepData s) = analysis_steps s"
  by (simp_all add: collectCurrentStepData_def split: option.splits)

lemma set_form_frame [simp]:
  "currentStep (set_form n cs s) = currentStep s"
  "wizardData (set_form n cs s) = wizardData s"
  "timers (set_form n cs s) = timers s"
  "localStorage (set_form n cs s) = localStorage s"
  "sessionStorage (set_form n cs s) = sessionStorage s"
  by (simp_all add: set_form_def)

lemma autoFill_frame [simp]:
  "currentStep (autoFillDemoData s) = currentStep s"
  "wizardData (autoFillDemoData s) = wizardData s"
  "timers (autoFillDemoData s) = timers s"
  "localStorage (autoFillDemoData s) = localStorage s"
  "sessionStorage (autoFillDemoData s) = sessionStorage s"
  by (simp_all add: autoFillDemoData_def Let_def split: option.splits)

lemma nextStep_timers [simp]: "timers (nextStep s) = timers s"
  by (simp add: nextStep_def Let_def)

lemma nextStep_step:
  "currentStep (nextStep s) =
     (if validateCurrentStep s \<and> currentStep s < totalSteps then currentStep s + 1 else currentStep s)"
  by (simp add: nextStep_def Let_def)

lemma previousStep_frame [simp]:
  "timers (previousStep s) = timers s"
  "wizardData (previousStep s) = wizardData s"
  "localStorage (previousStep s) = localStorage s"
  by (simp_all add: previousStep_def)

lemma runAnalysis_step_timers:
  "currentStep (runAnalysis r s) = 4" "timers (runAnalysis r s) = timers s"
  by (simp_all add: runAnalysis_def Let_def displayWizardResults_def showAnalysisError_def
      issue_request_def simulateAnalysisSteps_def showAnalysisLoading_def clearSavedWizardData_def
      split: api_response.splits)


lemma schedule_frame [simp]:
  "currentStep (schedule d t s) = currentStep s"
  "wizardData (schedule d t s) = wizardData s"
  "timers (schedule d t s) = timers s @ [(now s + d, t)]"
  "localStorage (schedule d t s) = localStorage s"
  "sessionStorage (schedule d t s) = sessionStorage s"
  by (simp_all add: schedule_def)

lemma selectPersona_frame [simp]:
  "currentStep (selectPersona p s) = currentStep s"
  "timers (selectPersona p s) = timers s"
  "sessionStorage (selectPersona p s) = sessionStorage s"
  by (simp_all add: selectPersona_def)

lemma loadDemoScenario_step [simp]: "currentStep (loadDemoScenario s) = currentStep s"
  by (simp add: loadDemoScenario_def prefillWizardFromScenario_def split: option.splits)

lemma loadDemoScenario_session [simp]: "sessionStorage (loadDemoScenario s) = sessionStorage s"
  by (simp add: loadDemoScenario_def prefillWizardFromScenario_def split: option.splits)

lemma loadDemoScenario_timers:
  "timers (loadDemoScenario s) = timers s \<or> timers (loadDemoScenario s) = timers s @ [(now s + 1000, AutoAdvance)]"
  by (simp add: loadDemoScenario_def prefillWizardFromScenario_def split: option.splits)

lemma load_timers:
  "timers (loadSavedWizardData s) = timers s \<or>
   (\<exists>step. 1 < step \<and> step \<le> totalSteps \<and> timers (loadSavedWizardData s) = timers s @ [(now s + 1000, ResumeStep step)])"
  by (simp add: loadSavedWizardData_def Let_def split: option.splits)

lemma load_step [simp]: "currentStep (loadSavedWizardData s) = currentStep s"
  by (simp add: loadSavedWizardData_def schedule_def Let_def split: option.splits)

lemma loadURL_step [simp]: "currentStep (loadURLParameters s) = currentStep s"
  by (simp add: loadURLParameters_def split: option.splits)

lemma loadURL_timers:
  "timers (loadURLParameters s) = timers s \<or> (\<exists>p d. timers (loadURLParameters s) = timers s @ [(now s + 500, PersonaFromURL p d)])"
  by (simp add: loadURLParameters_def split: option.splits)

lemma inv_nextStep: "wizard_inv s \<Longrightarrow> wizard_inv (nextStep s)"
  by (auto simp: wizard_inv_def step_in_bounds_def nextStep_step)

lemma inv_previousStep: "wizard_inv s \<Longrightarrow> wizard_inv (previousStep s)"
  by (auto simp: wizard_inv_def step_in_bounds_def previousStep_def)

lemma inv_runAnalysis: "wizard_inv s \<Longrightarrow> wizard_inv (runAnalysis r s)"
  by (simp add: wizard_inv_def step_in_bounds_def runAnalysis_step_timers totalSteps_def)

lemma inv_selectPersona: "wizard_inv s \<Longrightarrow> wizard_inv (selectPersona p s)"
  by (simp add: wizard_inv_def step_in_bounds_def)

lemma inv_loadDemoScenario: "wizard_inv s \<Longrightarrow> wizard_inv (loadDemoScenario s)"
  using loadDemoScenario_timers [of s] by (auto simp: wizard_inv_def step_in_bounds_def)

lemma inv_load: "wizard_inv s \<Longrightarrow> wizard_inv (loadSavedWizardData s)"
  using load_timers [of s] by (auto simp: wizard_inv_def step_in_bounds_def)

lemma inv_loadURL: "wizard_inv s \<Longrightarrow> wizard_inv (loadURLParameters s)"
  using loadURL_timers [of s] by (auto simp: wizard_inv_def step_in_bounds_def)

lemma inv_module_init: "wizard_inv (module_init s)"
  by (simp add: wizard_inv_def step_in_bounds_def module_init_def totalSteps_def)

lemma inv_page_load: "wizard_inv (page_load s)"
  by (simp add: page_load_def inv_loadURL inv_load inv_module_init)

lemma inv_run_task:
  "wizard_inv s \<Longrightarrow> resume_in_bounds t \<Longrightarrow> wizard_inv (run_task t s)"
proof (cases t)
  case AutoSave
  assume "wizard_inv s"
  then show ?thesis using AutoSave
    by (simp add: run_task_def wizard_inv_def step_in_bounds_def)
next
  case (ResumeStep step)
  assume "wizard_inv s" "resume_in_bounds t"
  then show ?thesis using ResumeStep
    by (simp add: run_task_def wizard_inv_def step_in_bounds_def)
next
  case (PersonaFromURL p d)
  assume "wizard_inv s"
  then show ?thesis using PersonaFromURL
    by (simp add: run_task_def Let_def inv_loadDemoScenario inv_selectPersona)
next
  case AutoAdvance
  assume "wizard_inv s"
  then show ?thesis using AutoAdvance
    by (simp add: run_task_def inv_nextStep)
qed

lemma earliest_mem: "earliest ts = Some x \<Longrightarrow> x \<in> set ts"
  by (induction ts arbitrary: x) (auto split: option.splits if_splits)

lemma inv_fire_next: "wizard_inv s \<Longrightarrow> wizard_inv (fire_next s)"
proof (cases "earliest (timers s)")
  case None
  assume "wizard_inv s"
  then show ?thesis using None by (simp add: fire_next_def)
next
  case (Some x)
  assume inv: "wizard_inv s"
  have mem: "x \<in> set (timers s)" using Some by (rule earliest_mem)
  have ok: "resume_in_bounds (snd x)"
    using inv mem by (auto simp: wizard_inv_def list_all_iff)
  have "wizard_inv (s\<lparr>now := max (now s) (fst x), timers := remove1 x (timers s)\<rparr>)"
    using inv by (auto simp: wizard_inv_def step_in_bounds_def list_all_iff dest: notin_set_remove1)
  then show ?thesis using Some ok by (simp add: fire_next_def inv_run_task)
qed

lemma inv_apply_operation: "wizard_inv s \<Longrightarrow> wizard_inv (apply_operation op s)"
  by (cases op) (simp_all add: inv_nextStep inv_previousStep inv_runAnalysis inv_selectPersona
      inv_fire_next inv_page_load startNewAssessment_def)

subsection \<open>The step stays in bounds\<close>

lemma three_text: "parseInt ''3'' = Some 3"
  by code_simp

text \<open>
  C8. The current step is between 1 and \<open>totalSteps\<close> when a page has loaded, and
  after every operation (next, previous, submit, restart, a persona card, a timer
  callback, a page load), given that it was so before and that every pending resume holds
  a step in bounds. A successful
  \<^verbatim>\<open>nextStep\<close> adds one, capped at \<open>totalSteps\<close>; \<^verbatim>\<open>previousStep\<close> subtracts
  one, with floor 1, and leaves the collected data as they are; a resume that
  \<^verbatim>\<open>loadSavedWizardData\<close> schedules holds a step above 1 and at most \<open>totalSteps\<close>.
\<close>

theorem step_stays_in_bounds:
  assumes "wizard_inv s"
  shows "wizard_inv (page_load t)
    \<and> wizard_inv (apply_operation op s)
    \<and> currentStep (nextStep s) =
        (if validateCurrentStep s then min (currentStep s + 1) totalSteps else currentStep s)
    \<and> currentStep (previousStep s) = max (currentStep s - 1) 1
    \<and> wizardData (previousStep s) = wizardData s
    \<and> list_all (\<lambda>x. resume_in_bounds (snd x)) (timers (loadSavedWizardData s))"
proof -
  have bounds: "1 \<le> currentStep s" "currentStep s \<le> totalSteps"
    using assms by (simp_all add: wizard_inv_def step_in_bounds_def)
  have a: "wizard_inv (apply_operation op s)"
    using assms by (rule inv_apply_operation)
  have b: "currentStep (nextStep s) =
        (if validateCurrentStep s then min (currentStep s + 1) totalSteps else currentStep s)"
    using bounds by (auto simp: nextStep_step)
  have c: "currentStep (previousStep s) = max (currentStep s - 1) 1"
    using bounds by (auto simp: previousStep_def)
  have d: "list_all (\<lambda>x. resume_in_bounds (snd x)) (timers (loadSavedWizardData s))"
    using inv_load [OF assms] by (simp add: wizard_inv_def)
  show ?thesis using a b c d by (simp add: inv_page_load)
qed

theorem step_stays_in_bounds_witness:
  "wizard_inv resumable_session
   \<and> currentStep (apply_operation TimerFires resumable_session) = 3
   \<and> wizard_inv (apply_operation TimerFires resumable_session)
   \<and> currentStep (previousStep resumable_session) = 2
   \<and> map snd (timers (loadSavedWizardData resumable_session))
       = [AutoSave, ResumeStep 3, ResumeStep 3]"
proof -
  have h: "wizard_inv resumable_session"
    by (simp add: wizard_inv_def step_in_bounds_def resumable_session_def acme_session_def
        fresh_session_def totalSteps_def)
  have e: "currentStep (apply_operation TimerFires resumable_session) = 3"
    by (simp add: fire_next_def run_task_def resumable_session_def acme_session_def
        fresh_session_def)
  have l: "map snd (timers (loadSavedWizardData resumable_session))
       = [AutoSave, ResumeStep 3, ResumeStep 3]"
    by (simp add: loadSavedWizardData_def Let_def three_text totalSteps_def schedule_def
        resumable_session_def acme_session_def fresh_session_def)
  have p: "currentStep (previousStep resumable_session) = 2"
    using step_stays_in_bounds [OF h, of fresh_session Previous]
    by (simp add: resumable_session_def acme_session_def fresh_session_def)
  show ?thesis using h e l p step_stays_in_bounds [OF h, of fresh_session TimerFires] by simp
qed

subsection \<open>A score of zero in the results\<close>

text \<open>
  C9. In the results summary a risk score or a compliance score of 0 is shown as
  \<^verbatim>\<open>--\<close>, and the whole summary is the one of a response where the score is absent;
  the persona message does not tell a compliance score of 0 from an absent one either.
\<close>

theorem zero_score_shown_as_missing:
  "risk_score_text
     (createResultsSummary (a\<lparr>risk_assessment := Some (r\<lparr>risk_score := Some 0\<rparr>)\<rparr>) p) = ''--''
   \<and> createResultsSummary (a\<lparr>risk_assessment := Some (r\<lparr>risk_score := Some 0\<rparr>)\<rparr>) p
       = createResultsSummary (a\<lparr>risk_assessment := Some (r\<lparr>risk_score := None\<rparr>)\<rparr>) p
   \<and> compliance_score_text
     (createResultsSummary (a\<lparr>risk_assessment := Some (r\<lparr>compliance_score := Some 0\<rparr>)\<rparr>) p) = ''--''
   \<and> createResultsSummary (a\<lparr>risk_assessment := Some (r\<lparr>compliance_score := Some 0\<rparr>)\<rparr>) p
       = createResultsSummary (a\<lparr>risk_assessment := Some (r\<lparr>compliance_score := None\<rparr>)\<rparr>) p
   \<and> getPersonaSpecificMessage p (r\<lparr>compliance_score := Some 0\<rparr>)
       = getPersonaSpecificMessage p (r\<lparr>compliance_score := None\<rparr>)"
  by (simp add: createResultsSummary_def getPersonaSpecificMessage_def num_or_def num_ge_def
      Let_def)

subsection \<open>No resume in demo mode\<close>

lemma load_demo_keeps_data:
  "truthy (get_prop (wizardData s) ''demo_scenario'') \<Longrightarrow>
   wizardData (loadSavedWizardData s) = wizardData s"
  by (simp add: loadSavedWizardData_def schedule_def Let_def split: option.splits)

lemma load_demo_keeps_timers:
  "str_includes (search s) ''demo'' \<Longrightarrow> timers (loadSavedWizardData s) = timers s"
  by (simp add: loadSavedWizardData_def schedule_def Let_def split: option.splits)

text \<open>
  C10. \<^verbatim>\<open>loadSavedWizardData\<close> leaves the data of the live session as they are when
  they hold a demo scenario, and schedules no resume when the query string contains
  \<^verbatim>\<open>demo\<close>: the step stays what it is, and a page opened through such an address is
  at step 1 with nothing pending but the auto-save, whatever step is stored.
\<close>

theorem resume_suppressed_in_demo_mode:
  "(truthy (get_prop (wizardData s) ''demo_scenario'') \<longrightarrow>
      wizardData (loadSavedWizardData s) = wizardData s)
   \<and> (str_includes (search s) ''demo'' \<longrightarrow>
      currentStep (loadSavedWizardData s) = currentStep s
      \<and> timers (loadSavedWizardData s) = timers s
      \<and> currentStep (loadSavedWizardData (module_init s)) = 1
      \<and> map snd (timers (loadSavedWizardData (module_init s))) = [AutoSave])"
  using load_demo_keeps_data [of s] load_demo_keeps_timers [of s]
    load_demo_keeps_timers [of "module_init s"]
  by (simp add: module_init_def)

theorem resume_suppressed_in_demo_mode_witness:
  "truthy (get_prop (wizardData demo_live_session) ''demo_scenario'')
   \<and> str_includes (search demo_live_session) ''demo''
   \<and> nexusai_wizard_step (localStorage demo_live_session) = Some ''3''
   \<and> wizardData (loadSavedWizardData demo_live_session) = wizardData demo_live_session
   \<and> timers (loadSavedWizardData demo_live_session) = timers demo_live_session
   \<and> currentStep (loadSavedWizardData (module_init demo_live_session)) = 1"
proof -
  have h1: "truthy (get_prop (wizardData demo_live_session) ''demo_scenario'')"
    by (simp add: demo_live_session_def acme_demo_session_def acme_session_def
        fresh_session_def get_prop_def)
  have h2: "str_includes (search demo_live_session) ''demo''"
    by (simp add: demo_live_session_def acme_demo_session_def acme_session_def
        fresh_session_def)
  have h3: "nexusai_wizard_step (localStorage demo_live_session) = Some ''3''"
    by (simp add: demo_live_session_def)
  show ?thesis
    using resume_suppressed_in_demo_mode [of demo_live_session] h1 h2 h3 by simp
qed

subsection \<open>The demo handoff record\<close>

lemma prefill_twice:
  assumes "prefillWizardFromScenario sc s = Some s'"
  shows "\<exists>s''. prefillWizardFromScenario sc s' = Some s'' \<and> wizardData s'' = wizardData s'"
proof -
  obtain ind where ind: "sc_industry sc = Some ind"
    using assms by (auto simp: prefillWizardFromScenario_def split: option.splits)
  have d: "wizardData s' =
       AList.update ''demo_scenario'' (ScenarioV sc)
         (AList.update ''ai_description'' (field_value (sc_ai_system sc))
           (AList.update ''industry'' (Scalar (toLowerCase ind))
             (AList.update ''company_name'' (field_value (sc_name sc)) (wizardData s))))"
    using assms ind by (auto simp: prefillWizardFromScenario_def)
  have "AList.update ''demo_scenario'' (ScenarioV sc)
         (AList.update ''ai_description'' (field_value (sc_ai_system sc))
           (AList.update ''industry'' (Scalar (toLowerCase ind))
             (AList.update ''company_name'' (field_value (sc_name sc)) (wizardData s')))) =
        wizardData s'"
    unfolding d by (simp add: update_triv update_conv')
  then show ?thesis using ind by (simp add: prefillWizardFromScenario_def)
qed

lemma loadDemoScenario_twice:
  "wizardData (loadDemoScenario (loadDemoScenario s)) = wizardData (loadDemoScenario s)"
proof (cases "item_selectedScenario (sessionStorage s)")
  case None
  then show ?thesis by (simp add: loadDemoScenario_def)
next
  case (Some t)
  show ?thesis
  proof (cases "JSON_parse t")
    case None
    then show ?thesis using Some by (simp add: loadDemoScenario_def)
  next
    case (Some sc)
    note parsed = this
    show ?thesis
    proof (cases "prefillWizardFromScenario sc s")
      case None
      then show ?thesis using \<open>item_selectedScenario (sessionStorage s) = Some t\<close> parsed
        by (simp add: loadDemoScenario_def)
    next
      case (Some s')
      have first: "loadDemoScenario s = s'"
        using \<open>item_selectedScenario (sessionStorage s) = Some t\<close> parsed Some
        by (simp add: loadDemoScenario_def)
      have store: "item_selectedScenario (sessionStorage s') = Some t"
        using first loadDemoScenario_session [of s]
          \<open>item_selectedScenario (sessionStorage s) = Some t\<close> by simp
      obtain s'' where again: "prefillWizardFromScenario sc s' = Some s''"
        and same: "wizardData s'' = wizardData s'"
        using prefill_twice [OF Some] by blast
      have "loadDemoScenario s' = s''"
        using store parsed again by (simp add: loadDemoScenario_def)
      then show ?thesis using first same by simp
    qed
  qed
qed

text \<open>
  C3, as the code has it. \<^verbatim>\<open>loadDemoScenario\<close> reads the handoff record and leaves
  the session store as it is: the record stays pending until \<^verbatim>\<open>clearSavedWizardData\<close>
  removes it (after a successful analysis, or on restart), and from then on
  \<^verbatim>\<open>loadDemoScenario\<close> changes nothing. Applying the prefill twice gives the same
  data as applying it once.
\<close>

theorem handoff_record_kept_until_cleared:
  "sessionStorage (loadDemoScenario s) = sessionStorage s
   \<and> wizardData (loadDemoScenario (loadDemoScenario s)) = wizardData (loadDemoScenario s)
   \<and> item_selectedScenario (sessionStorage (clearSavedWizardData s)) = None
   \<and> loadDemoScenario (clearSavedWizardData s) = clearSavedWizardData s"
  by (simp add: loadDemoScenario_twice) (simp add: loadDemoScenario_def clearSavedWizardData_def)

text \<open>
  The claim as written fails: after the first read the record is still in the session
  store, and a second call is not without effect, it schedules a second automatic advance.
\<close>

theorem handoff_record_consumed_counterexample:
  "item_selectedScenario (sessionStorage (loadDemoScenario acme_demo_session))
     = Some (Json techstart)
   \<and> timers (loadDemoScenario (loadDemoScenario acme_demo_session))
     \<noteq> timers (loadDemoScenario acme_demo_session)"
  by (simp add: loadDemoScenario_def prefillWizardFromScenario_def JSON_parse_def schedule_def
      acme_demo_session_def acme_session_def fresh_session_def techstart_def)

subsection \<open>When the session is saved\<close>

lemma collect_storage:
  "localStorage (collectCurrentStepData s) =
     (case current_form s of
        None \<Rightarrow> localStorage s
      | Some form \<Rightarrow>
          \<lparr>nexusai_wizard_data = Some (JSON_stringify (wizardData (collectCurrentStepData s))),
           nexusai_wizard_step = Some (toString (currentStep s))\<rparr>)"
  by (simp add: collectCurrentStepData_def current_form_def saveWizardData_def
      split: option.splits)

lemma nextStep_storage:
  "validateCurrentStep s \<Longrightarrow> localStorage (nextStep s) = localStorage (collectCurrentStepData s)"
  by (simp add: nextStep_def Let_def)

lemma nextStep_data:
  "validateCurrentStep s \<Longrightarrow> wizardData (nextStep s) = wizardData (collectCurrentStepData s)"
  by (simp add: nextStep_def Let_def)

text \<open>
  C5, as the code has it. \<^verbatim>\<open>previousStep\<close> never writes to the durable store. A
  successful \<^verbatim>\<open>nextStep\<close> saves when the step it leaves has a form, and it saves
  before the step is incremented: the store then holds the data of the session and the
  step that was left; with no form at that step it does not save. The interval callback saves when
  \<^verbatim>\<open>wizardData\<close> has at least one key, and is due again 30000 ms later.
\<close>

theorem durable_save_points:
  "localStorage (previousStep s) = localStorage s
   \<and> (validateCurrentStep s \<and> current_form s \<noteq> None \<longrightarrow>
        localStorage (nextStep s) =
          \<lparr>nexusai_wizard_data = Some (JSON_stringify (wizardData (nextStep s))),
           nexusai_wizard_step = Some (toString (currentStep s))\<rparr>)
   \<and> (validateCurrentStep s \<and> current_form s = None \<longrightarrow>
        localStorage (nextStep s) = localStorage s)
   \<and> localStorage (run_task AutoSave s) =
        (if wizardData s \<noteq> [] then localStorage (saveWizardData s) else localStorage s)
   \<and> timers (run_task AutoSave s) = timers s @ [(now s + 30000, AutoSave)]"
  by (auto simp: nextStep_storage nextStep_data collect_storage run_task_def)

theorem durable_save_points_witness:
  "validateCurrentStep acme_session \<and> current_form acme_session \<noteq> None
   \<and> nexusai_wizard_step (localStorage (nextStep acme_session)) = Some (toString 3)
   \<and> currentStep (nextStep acme_session) = 4
   \<and> validateCurrentStep (selectPersona (Scalar ''seller'') fresh_session)
   \<and> current_form (selectPersona (Scalar ''seller'') fresh_session) = None
   \<and> localStorage (nextStep (selectPersona (Scalar ''seller'') fresh_session))
       = localStorage fresh_session"
proof -
  have v1: "validateCurrentStep acme_session"
    by (simp add: validateCurrentStep_def step_controls_def acme_session_def fresh_session_def
        text_field_def trim_def is_space_def)
  have f1: "current_form acme_session \<noteq> None"
    by (simp add: current_form_def acme_session_def fresh_session_def)
  have c1: "currentStep acme_session = 3"
    by (simp add: acme_session_def fresh_session_def)
  have v2: "validateCurrentStep (selectPersona (Scalar ''seller'') fresh_session)"
    by (simp add: validateCurrentStep_def selectPersona_def fresh_session_def example_markup_def)
  have f2: "current_form (selectPersona (Scalar ''seller'') fresh_session) = None"
    by (simp add: current_form_def selectPersona_def fresh_session_def example_markup_def)
  have l2: "localStorage (selectPersona (Scalar ''seller'') fresh_session) = localStorage fresh_session"
    by (simp add: selectPersona_def)
  have n1: "currentStep (nextStep acme_session) = 4"
    using v1 c1 by (simp add: nextStep_step totalSteps_def)
  show ?thesis
    using durable_save_points [of acme_session]
      durable_save_points [of "selectPersona (Scalar ''seller'') fresh_session"]
      v1 f1 c1 v2 f2 l2 n1 by simp
qed

text \<open>
  The claim as written fails for \<^verbatim>\<open>previousStep\<close>: a user at step 3, whose store
  holds step 2, goes back twice; the session is at step 1 and the store still holds step
  2, not what \<^verbatim>\<open>saveWizardData\<close> would have written.
\<close>

theorem previous_saves_counterexample:
  "currentStep (previousStep (previousStep acme_session)) = 1
   \<and> nexusai_wizard_step (localStorage (previousStep (previousStep acme_session))) = Some ''2''
   \<and> localStorage (previousStep (previousStep acme_session))
     \<noteq> localStorage (saveWizardData (previousStep (previousStep acme_session)))"
proof -
  have one: "toString 1 = ''1''"
    by code_simp
  show ?thesis
    by (simp add: previousStep_def saveWizardData_def one acme_session_def fresh_session_def)
qed

subsection \<open>The order of the staged sequence and the request\<close>

lemma stage_events_are_stages: "list_all is_stage (stage_events i n)"
  by (induction n arbitrary: i) simp_all

lemma runAnalysis_log:
  "log (runAnalysis response s) =
     log s @ [LoadingShown] @ stage_events 0 (analysis_steps s)
       @ [RequestIssued (JSON_stringify (analysisData (collectCurrentStepData s)))]
       @ (if has_results s
          then (case response of
                  Success a \<Rightarrow>
                    [ResultsShown
                      (if has_personaMessage s
                       then Some (getPersonaSpecificMessage (selectedPersona s)
                              (case risk_assessment a of None \<Rightarrow> empty_risk_data | Some r \<Rightarrow> r))
                       else None)
                      (if has_resultsSummary s
                       then Some (createResultsSummary a (selectedPersona s)) else None)]
                | _ \<Rightarrow> [ErrorShown])
          else [])"
  by (simp add: runAnalysis_def Let_def displayWizardResults_def showAnalysisError_def
      issue_request_def simulateAnalysisSteps_def showAnalysisLoading_def
      clearSavedWizardData_def analysisData_def collectCurrentStepData_def saveWizardData_def
      split: api_response.splits option.splits)

text \<open>
  C1, as the code has it. The staged sequence gates the request: \<^verbatim>\<open>runAnalysis\<close>
  shows every stage and waits 1200 ms after each, and only then issues the request; the
  result or the error is shown after the request, hence after both the staged sequence
  and the answer.
\<close>

theorem request_follows_staged_sequence:
  "\<exists>rest. log (runAnalysis response s) =
       log s @ [LoadingShown] @ stage_events 0 (analysis_steps s)
         @ [RequestIssued (JSON_stringify (analysisData (collectCurrentStepData s)))] @ rest
     \<and> list_all is_display rest
     \<and> list_all is_stage (stage_events 0 (analysis_steps s))"
  by (cases response) (simp_all add: runAnalysis_log stage_events_are_stages)

text \<open>
  The claim as written fails: with two stages on the page, no stage event follows the
  request, all of them come before it.
\<close>

theorem request_not_gated_counterexample:
  "list_ex is_stage (log (runAnalysis Unreachable acme_session))
   \<and> \<not> list_ex is_stage (after_request (log (runAnalysis Unreachable acme_session)))"
  by (simp add: runAnalysis_log numeral_2_eq_2 acme_session_def fresh_session_def)

subsection \<open>The durable store after a submission\<close>



















subsection \<open>Demo values and what the user entered\<close>

lemma control_filled_refl: "control_filled c c"
  by (simp add: control_filled_def)

lemma control_filled_trans:
  "control_filled a b \<Longrightarrow> control_filled b c \<Longrightarrow> control_filled a c"
  by (auto simp: control_filled_def)

lemma form_filled_refl: "list_all2 control_filled cs cs"
  by (simp add: list_all2_same control_filled_refl)

lemma fill_if_empty_filled: "list_all2 control_filled cs (fill_if_empty n v cs)"
proof (induction cs)
  case Nil
  show ?case by simp
next
  case (Cons c cs)
  have "cvalue c = [] \<Longrightarrow> control_filled c (c\<lparr>cvalue := v\<rparr>)"
    by (simp add: control_filled_def)
  then show ?case
    using Cons by (simp add: form_filled_refl control_filled_refl)
qed

lemma fill_twice_filled:
  "list_all2 control_filled cs (fill_if_empty n2 v2 (fill_if_empty n1 v1 cs))"
proof -
  have "list_all2 control_filled cs (fill_if_empty n1 v1 cs)"
    by (rule fill_if_empty_filled)
  moreover have "list_all2 control_filled (fill_if_empty n1 v1 cs)
      (fill_if_empty n2 v2 (fill_if_empty n1 v1 cs))"
    by (rule fill_if_empty_filled)
  ultimately show ?thesis
    by (rule list_all2_trans [rotated]) (rule control_filled_trans)
qed

lemma step_controls_set_form:
  "step_controls (set_form k cs s) n = (if n = k then cs else step_controls s n)"
  by (simp add: step_controls_def set_form_def update_conv')

lemma step_controls_form:
  "map_of (page s) n = Some el \<Longrightarrow> wizard_form el = Some form \<Longrightarrow> step_controls s n = form"
  by (simp add: step_controls_def)

lemma autoFill_controls:
  "list_all2 control_filled (step_controls s n) (step_controls (autoFillDemoData s) n)"
  by (auto simp: autoFillDemoData_def Let_def step_controls_set_form step_controls_form
      form_filled_refl fill_if_empty_filled fill_twice_filled split: option.splits)

lemma prefill_overwrites:
  "sc_industry sc = Some ind \<Longrightarrow>
   \<exists>s'. prefillWizardFromScenario sc s = Some s'
     \<and> get_prop (wizardData s') ''company_name'' = field_value (sc_name sc)
     \<and> get_prop (wizardData s') ''industry'' = Scalar (toLowerCase ind)
     \<and> get_prop (wizardData s') ''ai_description'' = field_value (sc_ai_system sc)"
  by (simp add: prefillWizardFromScenario_def get_prop_def update_conv')

lemma lower_b2b: "toLowerCase ''B2B SaaS'' = ''b2b saas''"
  by code_simp

text \<open>
  C2, as the code has it. \<^verbatim>\<open>autoFillDemoData\<close> never writes to the data of the
  session; in the forms it changes nothing but the value of a control that was empty, so
  what the user typed into a form stays. \<^verbatim>\<open>prefillWizardFromScenario\<close> writes the
  scenario's name, lower-cased industry and description into \<^verbatim>\<open>company_name\<close>,
  \<^verbatim>\<open>industry\<close> and \<^verbatim>\<open>ai_description\<close> of the data whatever they hold.
\<close>

theorem demo_prefill_policy:
  "wizardData (autoFillDemoData s) = wizardData s
   \<and> list_all2 control_filled (step_controls s n) (step_controls (autoFillDemoData s) n)
   \<and> (sc_industry sc = Some ind \<longrightarrow>
        (\<exists>s'. prefillWizardFromScenario sc s = Some s'
           \<and> get_prop (wizardData s') ''company_name'' = field_value (sc_name sc)
           \<and> get_prop (wizardData s') ''industry'' = Scalar (toLowerCase ind)
           \<and> get_prop (wizardData s') ''ai_description'' = field_value (sc_ai_system sc)))"
  using autoFill_controls [of s n] prefill_overwrites [of sc ind s] by simp

theorem demo_prefill_policy_witness:
  "sc_industry techstart = Some ''B2B SaaS''
   \<and> get_prop (wizardData acme_session) ''industry'' = Scalar ''retail''
   \<and> (\<exists>s'. prefillWizardFromScenario techstart acme_session = Some s'
         \<and> get_prop (wizardData s') ''industry'' = Scalar ''b2b saas'')"
proof -
  have h: "sc_industry techstart = Some ''B2B SaaS''"
    by (simp add: techstart_def)
  have d: "get_prop (wizardData acme_session) ''industry'' = Scalar ''retail''"
    by (simp add: acme_session_def get_prop_def)
  show ?thesis
    using demo_prefill_policy [of acme_session 2 techstart "''B2B SaaS''"] h d
    by (auto simp: lower_b2b)
qed

text \<open>
  The claim as written fails: a user whose earlier visit stored the company name
  \<^verbatim>\<open>Acme\<close> opens a demo link; the page load restores the name into the data, and the
  first timer callback replaces it with the name of the scenario.
\<close>

theorem prefill_overwrites_counterexample:
  "get_prop (wizardData (page_load acme_demo_session)) ''company_name'' = Scalar ''Acme''
   \<and> get_prop (wizardData (fire_next (page_load acme_demo_session))) ''company_name''
       = Scalar ''TechStart Pro''"
  by (simp add: page_load_def module_init_def loadSavedWizardData_def loadURLParameters_def
      fire_next_def run_task_def selectPersona_def loadDemoScenario_def
      prefillWizardFromScenario_def JSON_parse_def schedule_def Let_def get_prop_def
      field_value_def acme_demo_session_def acme_session_def fresh_session_def techstart_def)

subsection \<open>The validation gate\<close>

lemma check_required_all:
  "check_required cs = list_all (\<lambda>c. trim (cvalue c) \<noteq> []) cs"
  by (induction cs) simp_all

text \<open>
  C6, as the code has it. On a page that has the element of the current step: at step 1
  the check passes exactly when a persona is selected; at every other step it passes
  exactly when the value of every required control is non-empty after trimming. For a
  checkbox that value is its value attribute, whether the box is checked or not. When
  the check fails \<^verbatim>\<open>nextStep\<close> changes nothing.
\<close>

theorem validation_gate:
  "(map_of (page s) (currentStep s) \<noteq> None \<and> currentStep s = 1 \<longrightarrow>
      validateCurrentStep s = (selectedPersona s \<noteq> Null \<and> selectedPersona s \<noteq> Undefined))
   \<and> (map_of (page s) (currentStep s) \<noteq> None \<and> currentStep s \<noteq> 1 \<longrightarrow>
      validateCurrentStep s =
        list_all (\<lambda>c. trim (cvalue c) \<noteq> [])
          (filter crequired (step_controls s (currentStep s))))
   \<and> (\<not> validateCurrentStep s \<longrightarrow> nextStep s = s)"
  by (auto simp: validateCurrentStep_def check_required_all nextStep_def)

theorem validation_gate_witness:
  "map_of (page fresh_session) (currentStep fresh_session) \<noteq> None
   \<and> currentStep fresh_session = 1 \<and> selectedPersona fresh_session = Null
   \<and> \<not> validateCurrentStep fresh_session
   \<and> nextStep fresh_session = fresh_session
   \<and> map_of (page blank_session) (currentStep blank_session) \<noteq> None
   \<and> currentStep blank_session = 2
   \<and> \<not> list_all (\<lambda>c. trim (cvalue c) \<noteq> [])
         (filter crequired (step_controls blank_session (currentStep blank_session)))
   \<and> \<not> validateCurrentStep blank_session
   \<and> nextStep blank_session = blank_session"
proof -
  have f: "map_of (page fresh_session) (currentStep fresh_session) \<noteq> None"
    "currentStep fresh_session = 1" "selectedPersona fresh_session = Null"
    by (simp_all add: fresh_session_def example_markup_def)
  have b: "map_of (page blank_session) (currentStep blank_session) \<noteq> None"
    "currentStep blank_session = 2"
    by (simp_all add: blank_session_def fresh_session_def)
  have blank: "\<not> list_all (\<lambda>c. trim (cvalue c) \<noteq> [])
         (filter crequired (step_controls blank_session (currentStep blank_session)))"
    by (simp add: step_controls_def blank_session_def fresh_session_def text_field_def
        trim_def is_space_def)
  have nf: "\<not> validateCurrentStep fresh_session"
    using validation_gate [of fresh_session] f by simp
  have nb: "\<not> validateCurrentStep blank_session"
    using validation_gate [of blank_session] b blank by simp
  show ?thesis
    using validation_gate [of fresh_session] validation_gate [of blank_session]
      f b blank nf nb by simp
qed

text \<open>
  The claim as written fails for a required field of list type: at step 3 of this session
  the only box of the required group is not checked, the group has no selection, and the
  check passes.
\<close>

theorem required_list_counterexample:
  "currentStep acme_session = 3
   \<and> validateCurrentStep acme_session
   \<and> \<not> spec_required_complete (step_controls acme_session (currentStep acme_session))"
  by (simp add: validateCurrentStep_def step_controls_def spec_required_complete_def
      spec_field_complete_def acme_session_def fresh_session_def text_field_def trim_def
      is_space_def)

subsection \<open>Saving and loading\<close>

lemma step_text_1: "parseInt (toString 1) = Some 1 \<and> toString 1 \<noteq> []"
  by code_simp

lemma step_text_2: "parseInt (toString 2) = Some 2 \<and> toString 2 \<noteq> []"
  by code_simp

lemma step_text_3: "parseInt (toString 3) = Some 3 \<and> toString 3 \<noteq> []"
  by code_simp

lemma step_text_4: "parseInt (toString 4) = Some 4 \<and> toString 4 \<noteq> []"
  by code_simp

lemma step_text:
  assumes "1 \<le> n" "n \<le> totalSteps"
  shows "parseInt (toString n) = Some n \<and> toString n \<noteq> []"
proof -
  have "n = 1 \<or> n = 2 \<or> n = 3 \<or> n = 4"
    using assms by (auto simp: totalSteps_def)
  then show ?thesis
    using step_text_1 step_text_2 step_text_3 step_text_4 by blast
qed

lemma load_after_save_data:
  "wizardData (loadSavedWizardData (module_init (saveWizardData s)))
     = filter (\<lambda>(k, v). v \<noteq> Undefined) (wizardData s)"
  by (simp add: loadSavedWizardData_def module_init_def saveWizardData_def JSON_stringify_def
      JSON_parse_def get_prop_def schedule_def Let_def split: option.splits)

lemma load_after_save_timers:
  assumes "1 \<le> currentStep s" "currentStep s \<le> totalSteps"
    and "\<not> str_includes (search s) ''demo''"
  shows "timers (loadSavedWizardData (module_init (saveWizardData s))) =
     (if currentStep s = 1 then [(now s + 30000, AutoSave)]
      else [(now s + 30000, AutoSave), (now s + 1000, ResumeStep (currentStep s))])"
proof -
  have digits: "parseInt (toString (currentStep s)) = Some (currentStep s)"
    "toString (currentStep s) \<noteq> []"
    using step_text [OF assms(1,2)] by simp_all
  have "timers (loadSavedWizardData (module_init (saveWizardData s))) =
     (if 1 < currentStep s
      then [(now s + 30000, AutoSave), (now s + 1000, ResumeStep (currentStep s))]
      else [(now s + 30000, AutoSave)])"
    using digits assms(2,3)
    by (simp add: loadSavedWizardData_def module_init_def saveWizardData_def JSON_stringify_def
        JSON_parse_def get_prop_def schedule_def Let_def del: One_nat_def)
  then show ?thesis using assms(1) by auto
qed

lemma fire_resume:
  "timers s = [(t + 30000, AutoSave), (t + 1000, ResumeStep n)] \<Longrightarrow>
   currentStep (fire_next s) = n"
  by (simp add: fire_next_def run_task_def)

text \<open>
  C7, as the code has it. A page loaded after a save holds the saved data, without the
  keys whose value was \<^verbatim>\<open>undefined\<close> (they are not written). When the query string
  does not contain \<^verbatim>\<open>demo\<close> and the saved step is between 1 and \<open>totalSteps\<close>,
  the step comes back as well: for step 1 at once, for a later step when the resume
  callback, due after 1000 ms and before anything else, has run.
\<close>

theorem save_load_round_trip:
  assumes "1 \<le> currentStep s" "currentStep s \<le> totalSteps"
    and "\<not> str_includes (search s) ''demo''"
  shows "wizardData (loadSavedWizardData (module_init (saveWizardData s)))
       = filter (\<lambda>(k, v). v \<noteq> Undefined) (wizardData s)
     \<and> (if currentStep s = 1
        then currentStep (loadSavedWizardData (module_init (saveWizardData s))) = 1
          \<and> map snd (timers (loadSavedWizardData (module_init (saveWizardData s)))) = [AutoSave]
        else currentStep (fire_next (loadSavedWizardData (module_init (saveWizardData s))))
          = currentStep s)"
proof (cases "currentStep s = 1")
  case True
  have "currentStep (module_init (saveWizardData s)) = 1"
    by (simp add: module_init_def)
  then show ?thesis
    using True load_after_save_timers [OF assms]
    by (simp add: load_after_save_data)
next
  case False
  have "timers (loadSavedWizardData (module_init (saveWizardData s)))
      = [(now s + 30000, AutoSave), (now s + 1000, ResumeStep (currentStep s))]"
    using False load_after_save_timers [OF assms] by simp
  then have "currentStep (fire_next (loadSavedWizardData (module_init (saveWizardData s))))
      = currentStep s"
    by (rule fire_resume)
  then show ?thesis using False by (simp add: load_after_save_data)
qed

theorem save_load_round_trip_witness:
  "1 \<le> currentStep acme_session \<and> currentStep acme_session \<le> totalSteps
   \<and> \<not> str_includes (search acme_session) ''demo''
   \<and> currentStep acme_session = 3
   \<and> wizardData (loadSavedWizardData (module_init (saveWizardData acme_session)))
       = wizardData acme_session
   \<and> currentStep (fire_next (loadSavedWizardData (module_init (saveWizardData acme_session))))
       = 3"
proof -
  have h: "1 \<le> currentStep acme_session" "currentStep acme_session \<le> totalSteps"
    "\<not> str_includes (search acme_session) ''demo''"
    by (simp_all add: acme_session_def fresh_session_def totalSteps_def)
  have c: "currentStep acme_session = 3"
    by (simp add: acme_session_def fresh_session_def)
  have d: "filter (\<lambda>(k, v). v \<noteq> Undefined) (wizardData acme_session) = wizardData acme_session"
    by (simp add: acme_session_def)
  show ?thesis
    using save_load_round_trip [OF h] h c d by simp
qed

text \<open>
  The claim as written fails: a session at step 3 is saved, the page is opened through an
  address whose query string contains \<^verbatim>\<open>demo\<close>, and the page stays at step 1 with
  no resume pending.
\<close>

theorem round_trip_demo_counterexample:
  "currentStep acme_demo_session = 3
   \<and> currentStep (loadSavedWizardData (module_init (saveWizardData acme_demo_session))) = 1
   \<and> map snd (timers (loadSavedWizardData (module_init (saveWizardData acme_demo_session))))
       = [AutoSave]"
  by (simp add: loadSavedWizardData_def module_init_def saveWizardData_def JSON_stringify_def
      JSON_parse_def get_prop_def schedule_def Let_def acme_demo_session_def acme_session_def
      fresh_session_def)

end
